theory Spec2Isabelle
  imports Main "HOL-Library.Mapping"
begin

section \<open>Data model (types.ts)\<close>

text \<open>
  The interfaces of \<^verbatim>\<open>types.ts\<close> as records. The fields \<^verbatim>\<open>id\<close> and \<^verbatim>\<open>text\<close> are
  renamed (\<open>qid\<close>, \<open>questionText\<close>, \<open>optionText\<close>) because the source's names are taken in
  Isabelle. A JavaScript number that counts seconds, indexes an array or identifies a
  question is an \<open>int\<close>. \<^verbatim>\<open>UserAnswers\<close> is an object used as a dictionary from question id
  to the selected key. An optional field is an \<open>option\<close>.
\<close>

record QuizOption =
  key :: string
  optionText :: string

record Question =
  qid :: int
  questionText :: string
  options :: "QuizOption list"
  correctAnswer :: string
  explanation :: "string option"

record QuizData =
  title :: string
  questions :: "Question list"
  timeLimit :: "int option"

type_synonym UserAnswers = "(int, string) mapping"

section \<open>JavaScript primitives used by QuizPlayer.tsx\<close>

text \<open>\<^verbatim>\<open>a % b\<close>: the remainder of the truncated division, with the sign of the dividend.\<close>

definition jsRem :: "int \<Rightarrow> int \<Rightarrow> int" where
  "jsRem a b = sgn a * (\<bar>a\<bar> mod \<bar>b\<bar>)"

text \<open>\<^verbatim>\<open>xs[i]\<close>: \<^verbatim>\<open>undefined\<close> (here \<open>None\<close>) outside the array.\<close>

definition jsIndex :: "'a list \<Rightarrow> int \<Rightarrow> 'a option" where
  "jsIndex xs i = (if 0 \<le> i \<and> i < int (length xs) then Some (xs ! nat i) else None)"

text \<open>\<^verbatim>\<open>xs.findIndex(P)\<close>: the first index whose element satisfies \<open>P\<close>, or \<open>-1\<close>.\<close>

fun findIndexFrom :: "int \<Rightarrow> ('a \<Rightarrow> bool) \<Rightarrow> 'a list \<Rightarrow> int" where
  "findIndexFrom i P [] = - 1"
| "findIndexFrom i P (x # xs) = (if P x then i else findIndexFrom (i + 1) P xs)"

definition findIndex :: "('a \<Rightarrow> bool) \<Rightarrow> 'a list \<Rightarrow> int" where
  "findIndex P xs = findIndexFrom 0 P xs"

text \<open>
  \<^verbatim>\<open>!!answers[id]\<close>: a missing entry (\<^verbatim>\<open>undefined\<close>) and the empty string are falsy,
  every other string is truthy.
\<close>

definition truthy :: "string option \<Rightarrow> bool" where
  "truthy v = (case v of None \<Rightarrow> False | Some k \<Rightarrow> k \<noteq> [])"

section \<open>The component QuizPlayer (components/QuizPlayer.tsx)\<close>

text \<open>
  The props. \<^verbatim>\<open>onFinish\<close> is required and \<^verbatim>\<open>onProgressUpdate\<close> is optional: the field
  \<open>onProgressUpdate\<close> says whether the callback was supplied, and the calls made to the two
  callbacks are logged in the state. \<^verbatim>\<open>initialAnswers\<close> defaults to the empty object and
  \<^verbatim>\<open>initialTimeLeft\<close> to \<^verbatim>\<open>null\<close> (\<open>None\<close>).
\<close>

record QuizPlayerProps =
  data :: QuizData
  initialAnswers :: UserAnswers
  initialTimeLeft :: "int option"
  onProgressUpdate :: bool

text \<open>
  The state: the three \<^verbatim>\<open>useState\<close> cells, the interval handle of the timer effect
  (\<open>timerActive\<close>: created and not yet cleared), the value of \<^verbatim>\<open>timeLeft\<close> in the render
  whose \<^verbatim>\<open>handleSubmit\<close> the interval callback closed over (\<open>closureTimeLeft\<close>: the timer
  effect depends on \<^verbatim>\<open>[answers, onProgressUpdate]\<close> only, so its callback keeps the
  \<^verbatim>\<open>handleSubmit\<close> of the render in which the effect last ran), and the calls made so far to
  \<^verbatim>\<open>onFinish\<close> and \<^verbatim>\<open>onProgressUpdate\<close>, oldest first. What the parent does when
  \<^verbatim>\<open>onFinish\<close> is called (unmounting the component, for instance) is not in these files:
  the component stays mounted here.
\<close>

record QuizPlayerState =
  currentQuestionIndex :: int
  answers :: UserAnswers
  timeLeft :: int
  timerActive :: bool
  closureTimeLeft :: int
  onFinishCalls :: "(UserAnswers \<times> int) list"
  onProgressUpdateCalls :: "(UserAnswers \<times> int) list"

text \<open>Line 25: \<^verbatim>\<open>data.timeLimit || data.questions.length * 60\<close>; \<^verbatim>\<open>undefined\<close> and 0 are falsy.\<close>

definition allocatedTime :: "QuizPlayerProps \<Rightarrow> int" where
  "allocatedTime p =
     (case timeLimit (data p) of
        Some t \<Rightarrow> if t \<noteq> 0 then t else int (length (questions (data p))) * 60
      | None \<Rightarrow> int (length (questions (data p))) * 60)"

text \<open>Lines 26-28: the initial value of \<^verbatim>\<open>timeLeft\<close>.\<close>

definition initialTime :: "QuizPlayerProps \<Rightarrow> int" where
  "initialTime p = (case initialTimeLeft p of Some t \<Rightarrow> t | None \<Rightarrow> allocatedTime p)"

text \<open>
  Lines 20 and 31-39: the position starts at 0 and the first effect moves it to the first
  question without a truthy prior answer, when there are prior answers and such a
  question exists.
\<close>

definition initialIndex :: "QuizPlayerProps \<Rightarrow> int" where
  "initialIndex p =
     (if \<not> Mapping.is_empty (initialAnswers p) then
        (let firstUnanswered =
               findIndex (\<lambda>q. \<not> truthy (Mapping.lookup (initialAnswers p) (qid q)))
                 (questions (data p))
         in if firstUnanswered \<noteq> - 1 then firstUnanswered else 0)
      else 0)"

text \<open>
  The two effects that depend on \<^verbatim>\<open>answers\<close> (lines 42-61 and 64-69) run after the first
  render and after every render with a new \<^verbatim>\<open>answers\<close> object: the timer effect clears its
  interval and creates a new one, whose callback closes over the current render, and the
  save effect reports \<^verbatim>\<open>(answers, timeLeft)\<close> when \<^verbatim>\<open>onProgressUpdate\<close> is supplied.
  The prop \<^verbatim>\<open>onProgressUpdate\<close> is taken to keep its identity between renders.
\<close>

definition answersEffects :: "QuizPlayerProps \<Rightarrow> QuizPlayerState \<Rightarrow> QuizPlayerState" where
  "answersEffects p s =
     (let s1 = s\<lparr>timerActive := True, closureTimeLeft := timeLeft s\<rparr>
      in if onProgressUpdate p
         then s1\<lparr>onProgressUpdateCalls := onProgressUpdateCalls s1 @ [(answers s1, timeLeft s1)]\<rparr>
         else s1)"

definition mount :: "QuizPlayerProps \<Rightarrow> QuizPlayerState" where
  "mount p =
     answersEffects p
       \<lparr>currentQuestionIndex = initialIndex p,
        answers = initialAnswers p,
        timeLeft = initialTime p,
        timerActive = False,
        closureTimeLeft = initialTime p,
        onFinishCalls = [],
        onProgressUpdateCalls = []\<rparr>"

text \<open>
  Lines 121-125. The argument \<open>seenTimeLeft\<close> is the \<^verbatim>\<open>timeLeft\<close> of the render that
  created this \<^verbatim>\<open>handleSubmit\<close>: the current one for the two submit buttons,
  \<open>closureTimeLeft\<close> for the interval callback.
\<close>

definition handleSubmit :: "QuizPlayerProps \<Rightarrow> int \<Rightarrow> QuizPlayerState \<Rightarrow> QuizPlayerState" where
  "handleSubmit p seenTimeLeft s =
     (let spent = max 0 (allocatedTime p - seenTimeLeft)
      in s\<lparr>onFinishCalls := onFinishCalls s @ [(answers s, spent)]\<rparr>)"

definition submitButton :: "QuizPlayerProps \<Rightarrow> QuizPlayerState \<Rightarrow> QuizPlayerState" where
  "submitButton p s = handleSubmit p (timeLeft s) s"

text \<open>
  Lines 43-58: one firing of the interval. A cleared interval does not fire, so a tick
  with \<open>timerActive\<close> false changes nothing.
\<close>

definition tick :: "QuizPlayerProps \<Rightarrow> QuizPlayerState \<Rightarrow> QuizPlayerState" where
  "tick p s =
     (if \<not> timerActive s then s
      else
        (let newVal = timeLeft s - 1;
             s1 = (if jsRem newVal 5 = 0 \<and> onProgressUpdate p
                   then s\<lparr>onProgressUpdateCalls := onProgressUpdateCalls s @ [(answers s, newVal)]\<rparr>
                   else s)
         in if newVal \<le> 0
            then (handleSubmit p (closureTimeLeft s1) (s1\<lparr>timerActive := False\<rparr>))\<lparr>timeLeft := 0\<rparr>
            else s1\<lparr>timeLeft := newVal\<rparr>))"

primrec ticks :: "nat \<Rightarrow> QuizPlayerProps \<Rightarrow> QuizPlayerState \<Rightarrow> QuizPlayerState" where
  "ticks 0 p s = s"
| "ticks (Suc n) p s = ticks n p (tick p s)"

text \<open>Lines 71-76, followed by the effects of the render with the new \<^verbatim>\<open>answers\<close>.\<close>

definition handleSelectOption ::
  "QuizPlayerProps \<Rightarrow> int \<Rightarrow> string \<Rightarrow> QuizPlayerState \<Rightarrow> QuizPlayerState" where
  "handleSelectOption p questionId optionKey s =
     answersEffects p (s\<lparr>answers := Mapping.update questionId optionKey (answers s)\<rparr>)"

text \<open>
  Lines 80-116. \<open>targetIsInput\<close> is the test on \<^verbatim>\<open>e.target\<close> of line 82 and \<open>k\<close> is
  \<^verbatim>\<open>e.key\<close>. Reading \<^verbatim>\<open>currentQ.options\<close> when \<^verbatim>\<open>currentQ\<close> is \<^verbatim>\<open>undefined\<close> throws a
  TypeError: the result \<open>None\<close>. \<open>selectIfPresent\<close> is the body that the four groups of
  answer keys share, with the group's letter.
\<close>

definition selectIfPresent ::
  "QuizPlayerProps \<Rightarrow> Question option \<Rightarrow> string \<Rightarrow> QuizPlayerState \<Rightarrow> QuizPlayerState option" where
  "selectIfPresent p currentQ letter s =
     (case currentQ of
        None \<Rightarrow> None
      | Some q \<Rightarrow>
          if list_ex (\<lambda>o'. key o' = letter) (options q)
          then Some (handleSelectOption p (qid q) letter s)
          else Some s)"

definition handleKeyDown ::
  "QuizPlayerProps \<Rightarrow> bool \<Rightarrow> string \<Rightarrow> QuizPlayerState \<Rightarrow> QuizPlayerState option" where
  "handleKeyDown p targetIsInput k s =
     (if targetIsInput then Some s
      else
        (let currentQ = jsIndex (questions (data p)) (currentQuestionIndex s)
         in if k = ''ArrowLeft''
            then Some (s\<lparr>currentQuestionIndex := max 0 (currentQuestionIndex s - 1)\<rparr>)
            else if k = ''ArrowRight'' \<or> k = ''Enter''
            then Some (s\<lparr>currentQuestionIndex :=
                   min (int (length (questions (data p))) - 1) (currentQuestionIndex s + 1)\<rparr>)
            else if k = ''1'' \<or> k = ''a'' \<or> k = ''A'' then selectIfPresent p currentQ ''A'' s
            else if k = ''2'' \<or> k = ''b'' \<or> k = ''B'' then selectIfPresent p currentQ ''B'' s
            else if k = ''3'' \<or> k = ''c'' \<or> k = ''C'' then selectIfPresent p currentQ ''C'' s
            else if k = ''4'' \<or> k = ''d'' \<or> k = ''D'' then selectIfPresent p currentQ ''D'' s
            else Some s))"

text \<open>
  Lines 157-171: the sidebar is \<^verbatim>\<open>data.questions.map((q, idx) => ...)\<close>, one button per
  question, and the \<^verbatim>\<open>onClick\<close> of the button of index \<open>idx\<close> sets the position to
  \<open>idx\<close>. \<open>clickIndex p idx\<close> is a click on the button of index \<open>idx\<close>; the page has
  no such button, and so no such click, outside the indices of the questions: \<open>None\<close>.
\<close>

definition sidebarButtons :: "QuizPlayerProps \<Rightarrow> (QuizPlayerState \<Rightarrow> QuizPlayerState) list" where
  "sidebarButtons p =
     map (\<lambda>idx s. s\<lparr>currentQuestionIndex := int idx\<rparr>) [0..<length (questions (data p))]"

definition clickIndex :: "QuizPlayerProps \<Rightarrow> int \<Rightarrow> QuizPlayerState \<Rightarrow> QuizPlayerState option" where
  "clickIndex p idx s =
     (case jsIndex (sidebarButtons p) idx of None \<Rightarrow> None | Some onClick \<Rightarrow> Some (onClick s))"

text \<open>The two footer buttons (lines 315 and 330); the radio input of an option (line 265)
  is \<open>handleSelectOption\<close>.\<close>

definition previousButton :: "QuizPlayerState \<Rightarrow> QuizPlayerState" where
  "previousButton s = s\<lparr>currentQuestionIndex := max 0 (currentQuestionIndex s - 1)\<rparr>"

definition nextButton :: "QuizPlayerProps \<Rightarrow> QuizPlayerState \<Rightarrow> QuizPlayerState" where
  "nextButton p s =
     s\<lparr>currentQuestionIndex :=
         min (int (length (questions (data p))) - 1) (currentQuestionIndex s + 1)\<rparr>"

text \<open>
  The events of a session, and a run of them. A run ends with \<open>None\<close> at a TypeError and
  at a click that the page cannot issue.
\<close>

datatype event =
    Tick
  | KeyDown bool string
  | ClickIndex int
  | PreviousButton
  | NextButton
  | RadioChange int string
  | SubmitButton

fun step :: "QuizPlayerProps \<Rightarrow> event \<Rightarrow> QuizPlayerState \<Rightarrow> QuizPlayerState option" where
  "step p Tick s = Some (tick p s)"
| "step p (KeyDown targetIsInput k) s = handleKeyDown p targetIsInput k s"
| "step p (ClickIndex idx) s = clickIndex p idx s"
| "step p PreviousButton s = Some (previousButton s)"
| "step p NextButton s = Some (nextButton p s)"
| "step p (RadioChange questionId optionKey) s = Some (handleSelectOption p questionId optionKey s)"
| "step p SubmitButton s = Some (submitButton p s)"

fun run :: "QuizPlayerProps \<Rightarrow> event list \<Rightarrow> QuizPlayerState \<Rightarrow> QuizPlayerState option" where
  "run p [] s = Some s"
| "run p (e # es) s = (case step p e s of None \<Rightarrow> None | Some s' \<Rightarrow> run p es s')"

text \<open>Lines 158-159: the two flags of a question in the sidebar.\<close>

definition isAnswered :: "UserAnswers \<Rightarrow> Question \<Rightarrow> bool" where
  "isAnswered a q = truthy (Mapping.lookup a (qid q))"

definition isCorrect :: "UserAnswers \<Rightarrow> Question \<Rightarrow> bool" where
  "isCorrect a q = (Mapping.lookup a (qid q) = Some (correctAnswer q))"

text \<open>The per-question correctness flags, in display order.\<close>

definition correctnessFlags :: "QuizData \<Rightarrow> UserAnswers \<Rightarrow> bool list" where
  "correctnessFlags d a = map (isCorrect a) (questions d)"

text \<open>
  Modelled from the spec: the Scorer's count of correct answers. The source files at hand
  compute the per-question flag only (\<open>isCorrect\<close>, line 159); the function that adds the
  flags up is not among them. The spec (4.4): "a question counts correct only on an exact
  key match; unanswered questions count as incorrect. Produces a count of correct answers
  and, per question, a boolean correctness flag".
\<close>

definition score :: "QuizData \<Rightarrow> UserAnswers \<Rightarrow> nat" where
  "score d a = length (filter (isCorrect a) (questions d))"

text \<open>
  The snapshots reported by the first \<open>n\<close> firings of the interval of a session that does
  nothing else: the calls to \<^verbatim>\<open>onProgressUpdate\<close> after those made while mounting.
\<close>

definition tickEmissions :: "nat \<Rightarrow> QuizPlayerProps \<Rightarrow> (UserAnswers \<times> int) list" where
  "tickEmissions n p =
     drop (length (onProgressUpdateCalls (mount p))) (onProgressUpdateCalls (ticks n p (mount p)))"

section \<open>Example sessions\<close>

definition optionsABCD :: "QuizOption list" where
  "optionsABCD =
     [\<lparr>key = ''A'', optionText = ''first''\<rparr>, \<lparr>key = ''B'', optionText = ''second''\<rparr>,
      \<lparr>key = ''C'', optionText = ''third''\<rparr>, \<lparr>key = ''D'', optionText = ''fourth''\<rparr>]"

definition q1 :: Question where
  "q1 = \<lparr>qid = 1, questionText = ''Q1'', options = optionsABCD,
          correctAnswer = ''A'', explanation = None\<rparr>"

definition q2 :: Question where
  "q2 = \<lparr>qid = 2, questionText = ''Q2'', options = take 2 optionsABCD,
          correctAnswer = ''B'', explanation = None\<rparr>"

definition q3 :: Question where
  "q3 = \<lparr>qid = 3, questionText = ''Q3'', options = optionsABCD,
          correctAnswer = ''C'', explanation = Some ''because''\<rparr>"

definition exampleData :: "int option \<Rightarrow> QuizData" where
  "exampleData limit = \<lparr>title = ''quiz'', questions = [q1, q2, q3], timeLimit = limit\<rparr>"

text \<open>A fresh session, and one resumed with the prior answers \<^verbatim>\<open>{1: "A"}\<close>.\<close>

definition freshProps :: "int option \<Rightarrow> QuizPlayerProps" where
  "freshProps limit =
     \<lparr>data = exampleData limit, initialAnswers = Mapping.empty, initialTimeLeft = None,
      onProgressUpdate = True\<rparr>"

definition resumedProps :: "int option \<Rightarrow> int option \<Rightarrow> QuizPlayerProps" where
  "resumedProps limit left =
     \<lparr>data = exampleData limit, initialAnswers = Mapping.update 1 ''A'' Mapping.empty,
      initialTimeLeft = left, onProgressUpdate = True\<rparr>"

text \<open>A session resumed with every question answered, and the answers \<^verbatim>\<open>{1: "A", 2: "X"}\<close>.\<close>

definition answeredProps :: QuizPlayerProps where
  "answeredProps =
     \<lparr>data = exampleData None,
      initialAnswers = Mapping.update 3 ''C'' (Mapping.update 2 ''X'' (Mapping.update 1 ''A'' Mapping.empty)),
      initialTimeLeft = Some 100, onProgressUpdate = True\<rparr>"

definition exampleAnswers :: UserAnswers where
  "exampleAnswers = Mapping.update 2 ''X'' (Mapping.update 1 ''A'' Mapping.empty)"

section \<open>The operations as the spec words them\<close>

text \<open>
  The spec's \<^verbatim>\<open>setPosition(index)\<close> over \<open>n\<close> questions, "clamps to [0, lastIndex]",
  to compare the navigation paths of the code with.
\<close>

definition setPositionSpec :: "int \<Rightarrow> int \<Rightarrow> int" where
  "setPositionSpec n i = max 0 (min (n - 1) i)"

text \<open>
  The spec's table of answer keys (4.3): "Digit 1-4 or letters A-D (case-insensitive) ...
  mapping: 1/A to "A", 2/B to "B", 3/C to "C", 4/D to "D"", to compare \<open>handleKeyDown\<close>
  with. A key outside the table has no mapped key.
\<close>

definition mappedKeySpec :: "string \<Rightarrow> string option" where
  "mappedKeySpec k =
     (if k = ''1'' \<or> k = ''a'' \<or> k = ''A'' then Some ''A''
      else if k = ''2'' \<or> k = ''b'' \<or> k = ''B'' then Some ''B''
      else if k = ''3'' \<or> k = ''c'' \<or> k = ''C'' then Some ''C''
      else if k = ''4'' \<or> k = ''d'' \<or> k = ''D'' then Some ''D''
      else None)"

section \<open>The timer\<close>

lemma jsRem_5: "jsRem v 5 = 0 \<longleftrightarrow> v mod 5 = 0"
  unfolding jsRem_def by (cases "v < 0") (auto simp: sgn_if zmod_zminus1_eq_if abs_if; presburger)+

lemma mount_fields:
  "timerActive (mount p)" "onFinishCalls (mount p) = []" "timeLeft (mount p) = initialTime p"
  "answers (mount p) = initialAnswers p" "closureTimeLeft (mount p) = initialTime p"
  "currentQuestionIndex (mount p) = initialIndex p"
  by (simp_all add: mount_def answersEffects_def Let_def)

lemma tick_inactive: "\<not> timerActive s \<Longrightarrow> tick p s = s"
  by (simp add: tick_def)

lemma ticks_inactive: "\<not> timerActive s \<Longrightarrow> ticks n p s = s"
  by (induction n) (simp_all add: tick_inactive)

lemma tick_expire:
  "timerActive s \<Longrightarrow> timeLeft s \<le> 1 \<Longrightarrow>
   timeLeft (tick p s) = 0 \<and> \<not> timerActive (tick p s) \<and>
   answers (tick p s) = answers s \<and>
   currentQuestionIndex (tick p s) = currentQuestionIndex s \<and>
   onFinishCalls (tick p s) =
     onFinishCalls s @ [(answers s, max 0 (allocatedTime p - closureTimeLeft s))]"
  by (simp add: tick_def handleSubmit_def Let_def)

lemma tick_countdown:
  "timerActive s \<Longrightarrow> 1 < timeLeft s \<Longrightarrow>
   timeLeft (tick p s) = timeLeft s - 1 \<and> timerActive (tick p s) \<and>
   answers (tick p s) = answers s \<and> closureTimeLeft (tick p s) = closureTimeLeft s \<and>
   currentQuestionIndex (tick p s) = currentQuestionIndex s \<and>
   onFinishCalls (tick p s) = onFinishCalls s"
  by (simp add: tick_def handleSubmit_def Let_def)

text \<open>
  Once the interval has fired at least once and at least as often as the seconds that
  were left, the time is up, the interval is cleared and the callback's \<^verbatim>\<open>handleSubmit\<close>
  has run once.
\<close>

lemma ticks_expire:
  "timerActive s \<Longrightarrow> 1 \<le> n \<Longrightarrow> timeLeft s \<le> int n \<Longrightarrow>
   timeLeft (ticks n p s) = 0 \<and> \<not> timerActive (ticks n p s) \<and>
   onFinishCalls (ticks n p s) =
     onFinishCalls s @ [(answers s, max 0 (allocatedTime p - closureTimeLeft s))]"
proof (induction n arbitrary: s)
  case 0
  then show ?case by simp
next
  case (Suc n)
  show ?case
  proof (cases "timeLeft s \<le> 1")
    case True
    from tick_expire [OF Suc.prems(1) True, of p]
    show ?thesis by (simp add: ticks_inactive)
  next
    case False
    then have gt: "1 < timeLeft s" by simp
    note cd = tick_countdown [OF Suc.prems(1) gt, of p]
    have n1: "1 \<le> n" using gt Suc.prems(3) by simp
    have le: "timeLeft (tick p s) \<le> int n" using cd Suc.prems(3) by simp
    from Suc.IH [of "tick p s", OF _ n1 le] cd
    show ?thesis by simp
  qed
qed

text \<open>
  C1. In a session whose allocated time is \<open>T > 0\<close> and whose remaining time starts at
  \<open>T\<close> (a fresh session) or below it (a resumed one), \<open>T\<close> firings of the interval bring the
  remaining time to 0 and call \<^verbatim>\<open>onFinish\<close> exactly once; any number \<open>k\<close> of further ticks
  leaves the whole state, the log of \<^verbatim>\<open>onFinish\<close> calls included, as it is.
\<close>

theorem C1_tick_expiry:
  assumes "allocatedTime p = int T" and "0 < T" and "timeLeft (mount p) \<le> int T"
  shows "timeLeft (ticks T p (mount p)) = 0 \<and>
         length (onFinishCalls (ticks T p (mount p))) = 1 \<and>
         ticks k p (ticks T p (mount p)) = ticks T p (mount p)"
proof -
  have act: "timerActive (mount p)" by (rule mount_fields)
  have T1: "1 \<le> T" using assms(2) by simp
  note ex = ticks_expire [OF act T1 assms(3), of p]
  from ex have "ticks k p (ticks T p (mount p)) = ticks T p (mount p)"
    by (simp add: ticks_inactive)
  with ex show ?thesis by (simp add: mount_fields)
qed

theorem C1_tick_expiry_witness:
  "allocatedTime (freshProps (Some 3)) = int 3 \<and> (0::nat) < 3 \<and>
   timeLeft (mount (freshProps (Some 3))) \<le> int 3 \<and>
   timeLeft (ticks 3 (freshProps (Some 3)) (mount (freshProps (Some 3)))) = 0 \<and>
   length (onFinishCalls (ticks 3 (freshProps (Some 3)) (mount (freshProps (Some 3))))) = 1 \<and>
   ticks 2 (freshProps (Some 3)) (ticks 3 (freshProps (Some 3)) (mount (freshProps (Some 3)))) =
     ticks 3 (freshProps (Some 3)) (mount (freshProps (Some 3)))"
proof -
  have a: "allocatedTime (freshProps (Some 3)) = int 3"
    by (simp add: freshProps_def exampleData_def allocatedTime_def)
  have b: "(0::nat) < 3" by simp
  have c: "timeLeft (mount (freshProps (Some 3))) \<le> int 3"
    by (simp add: mount_fields initialTime_def freshProps_def exampleData_def allocatedTime_def)
  from C1_tick_expiry [OF a b c, of 2] a b c show ?thesis by simp
qed

section \<open>Submission\<close>

text \<open>
  C2, as the code has it. \<^verbatim>\<open>handleSubmit\<close> has no guard and keeps no record of having
  run: each invocation calls \<^verbatim>\<open>onFinish\<close>, so two presses of a submit button in
  immediate succession deliver the same pair \<^verbatim>\<open>(answers, spent)\<close> twice.
\<close>

theorem C2_submission_not_guarded:
  "onFinishCalls (submitButton p (submitButton p s)) =
     onFinishCalls s @ [(answers s, max 0 (allocatedTime p - timeLeft s)),
                        (answers s, max 0 (allocatedTime p - timeLeft s))]"
  by (simp add: submitButton_def handleSubmit_def Let_def)

text \<open>
  C2 as stated fails: in a fresh session of 10 seconds, two submissions in a row leave
  two calls to \<^verbatim>\<open>onFinish\<close>, not one.
\<close>

theorem C2_double_delivery_counterexample:
  "length (onFinishCalls (submitButton (freshProps (Some 10))
      (submitButton (freshProps (Some 10)) (mount (freshProps (Some 10)))))) \<noteq> 1"
  by (simp add: submitButton_def handleSubmit_def Let_def mount_fields)

text \<open>The submit buttons report the allocated time minus the current remaining time.\<close>

lemma submitButton_elapsed:
  "onFinishCalls (submitButton p s) =
     onFinishCalls s @ [(answers s, max 0 (allocatedTime p - timeLeft s))]"
  by (simp add: submitButton_def handleSubmit_def Let_def)

text \<open>
  C9 at the expiry of the timer. A fresh session over three questions without a time
  limit has 180 seconds. With no answer selected, the interval callback still holds the
  \<^verbatim>\<open>handleSubmit\<close> of the first render, where \<^verbatim>\<open>timeLeft\<close> is 180: when the 180th tick
  brings the remaining time to 0, \<^verbatim>\<open>onFinish\<close> receives 0 elapsed seconds, not 180.
\<close>

theorem C9_timer_expiry_elapsed:
  "allocatedTime (freshProps None) = 180 \<and>
   timeLeft (ticks 180 (freshProps None) (mount (freshProps None))) = 0 \<and>
   onFinishCalls (ticks 180 (freshProps None) (mount (freshProps None))) = [(Mapping.empty, 0)]"
proof -
  have a: "allocatedTime (freshProps None) = 180"
    by (simp add: freshProps_def exampleData_def allocatedTime_def)
  have act: "timerActive (mount (freshProps None))" by (rule mount_fields)
  have n1: "(1::nat) \<le> 180" by simp
  have tl: "timeLeft (mount (freshProps None)) \<le> int 180"
    using a by (simp add: mount_fields initialTime_def freshProps_def)
  note ex = ticks_expire [OF act n1 tl, of "freshProps None"]
  have i: "initialAnswers (freshProps None) = Mapping.empty" "initialTimeLeft (freshProps None) = None"
    by (simp_all add: freshProps_def)
  from ex a i show ?thesis
    by (simp add: mount_fields initialTime_def)
qed

section \<open>Progress snapshots\<close>

lemma tick_progress:
  "timerActive s \<Longrightarrow> 1 \<le> timeLeft s \<Longrightarrow> onProgressUpdate p \<Longrightarrow>
   onProgressUpdateCalls (tick p s) =
     onProgressUpdateCalls s @
       (if (timeLeft s - 1) mod 5 = 0 then [(answers s, timeLeft s - 1)] else []) \<and>
   timeLeft (tick p s) = timeLeft s - 1 \<and> answers (tick p s) = answers s"
  by (simp add: tick_def handleSubmit_def Let_def jsRem_5)

lemma rev_upto_last: "i \<le> j \<Longrightarrow> rev [i..j] = j # rev [i..j - 1]"
  by (simp add: upto_rec2)

lemma ticks_progress:
  "timerActive s \<Longrightarrow> int n \<le> timeLeft s \<Longrightarrow> onProgressUpdate p \<Longrightarrow>
   onProgressUpdateCalls (ticks n p s) =
     onProgressUpdateCalls s @
       map (\<lambda>v. (answers s, v))
         (filter (\<lambda>v. v mod 5 = 0) (rev [timeLeft s - int n .. timeLeft s - 1]))"
proof (induction n arbitrary: s)
  case 0
  then show ?case by simp
next
  case (Suc n)
  have pos: "1 \<le> timeLeft s" using Suc.prems(2) by simp
  note tp = tick_progress [OF Suc.prems(1) pos Suc.prems(3)]
  have split: "rev [timeLeft s - int (Suc n) .. timeLeft s - 1] =
               (timeLeft s - 1) # rev [timeLeft s - 1 - int n .. timeLeft s - 1 - 1]"
    using rev_upto_last [of "timeLeft s - int (Suc n)" "timeLeft s - 1"]
    by (simp add: algebra_simps)
  show ?case
  proof (cases "timerActive (tick p s)")
    case True
    have le: "int n \<le> timeLeft (tick p s)" using tp Suc.prems(2) by simp
    from Suc.IH [OF True le Suc.prems(3)] tp split
    show ?thesis by simp
  next
    case False
    have "timeLeft s \<le> 1"
    proof (rule ccontr)
      assume "\<not> timeLeft s \<le> 1"
      then have "1 < timeLeft s" by simp
      from tick_countdown [OF Suc.prems(1) this, of p] False show False by simp
    qed
    with pos have one: "timeLeft s = 1" by simp
    with Suc.prems(2) have n0: "n = 0" by simp
    from tp one n0 show ?thesis by simp
  qed
qed

lemma count_multiples: "length (filter (\<lambda>v. v mod 5 = 0) [0..int n]) = n div 5 + 1"
proof (induction n)
  case 0
  then show ?case by (simp add: upto.simps)
next
  case (Suc n)
  have "[0..int (Suc n)] = [0..int n] @ [int n + 1]"
    using upto_rec2 [of 0 "int (Suc n)"] by (simp add: algebra_simps)
  moreover have "((int n + 1) mod 5 = 0) = (Suc n mod 5 = 0)"
    by presburger
  ultimately show ?case using Suc.IH by (auto simp: div_Suc)
qed

text \<open>
  C3, as the code has it. In a fresh session of \<open>T > 0\<close> seconds with
  \<^verbatim>\<open>onProgressUpdate\<close> supplied and no answer selected, the first \<open>k \<le> T\<close> ticks report
  exactly the remaining times that are multiples of five among those they reach
  (\<open>T - 1\<close> down to \<open>T - k\<close>), each with the unchanged answers; over the whole run these
  are the multiples of five from 0 to \<open>T - 1\<close>, the final 0 included, which makes
  \<open>(T - 1) div 5 + 1\<close> snapshots. The snapshot that the answers effect takes while
  mounting, at remaining time \<open>T\<close>, is not one of them.
\<close>

theorem C3_progress_emissions:
  assumes "initialTimeLeft p = None" and "allocatedTime p = int T" and "0 < T"
    and "onProgressUpdate p" and "k \<le> T"
  shows "tickEmissions k p =
           map (\<lambda>v. (initialAnswers p, v))
             (filter (\<lambda>v. v mod 5 = 0) (rev [int T - int k .. int T - 1])) \<and>
         length (tickEmissions T p) = (T - 1) div 5 + 1"
proof -
  have act: "timerActive (mount p)" by (rule mount_fields)
  have tl: "timeLeft (mount p) = int T"
    using assms(1,2) by (simp add: mount_fields initialTime_def)
  have run: "onProgressUpdateCalls (ticks n p (mount p)) =
               onProgressUpdateCalls (mount p) @
                 map (\<lambda>v. (initialAnswers p, v))
                   (filter (\<lambda>v. v mod 5 = 0) (rev [int T - int n .. int T - 1]))"
    if "n \<le> T" for n
    using ticks_progress [OF act _ assms(4), of n] that tl by (simp add: mount_fields)
  have em: "tickEmissions n p =
              map (\<lambda>v. (initialAnswers p, v))
                (filter (\<lambda>v. v mod 5 = 0) (rev [int T - int n .. int T - 1]))"
    if "n \<le> T" for n
    using run [OF that] by (simp add: tickEmissions_def)
  have "int (T - 1) = int T - 1" using assms(3) by simp
  then have "length (filter (\<lambda>v. v mod 5 = 0) [0 .. int T - 1]) = (T - 1) div 5 + 1"
    using count_multiples [of "T - 1"] by simp
  then have "length (tickEmissions T p) = (T - 1) div 5 + 1"
    using em [of T] by (simp flip: rev_filter)
  with em [OF assms(5)] show ?thesis by simp
qed

theorem C3_progress_emissions_witness:
  "initialTimeLeft (freshProps (Some 12)) = None \<and> allocatedTime (freshProps (Some 12)) = int 12 \<and>
   (0::nat) < 12 \<and> onProgressUpdate (freshProps (Some 12)) \<and> (12::nat) \<le> 12 \<and>
   map snd (tickEmissions 12 (freshProps (Some 12))) = [10, 5, 0] \<and>
   length (tickEmissions 12 (freshProps (Some 12))) = 3"
proof -
  have a: "initialTimeLeft (freshProps (Some 12)) = None" by (simp add: freshProps_def)
  have b: "allocatedTime (freshProps (Some 12)) = int 12"
    by (simp add: freshProps_def exampleData_def allocatedTime_def)
  have c: "(0::nat) < 12" by simp
  have d: "onProgressUpdate (freshProps (Some 12))" by (simp add: freshProps_def)
  have e: "(12::nat) \<le> 12" by simp
  have u: "rev [int 12 - int 12 .. int 12 - 1] = [11,10,9,8,7,6,5,4,3,2,1,0::int]"
    by (simp add: upto.simps)
  have f: "filter (\<lambda>v. v mod 5 = 0) [11,10,9,8,7,6,5,4,3,2,1,0::int] = [10, 5, 0]"
    by simp
  note main = C3_progress_emissions [OF a b c d e, unfolded u f]
  from main have "map snd (tickEmissions 12 (freshProps (Some 12))) = [10, 5, 0]"
    by simp
  moreover from main have "length (tickEmissions 12 (freshProps (Some 12))) = 3"
    by simp
  ultimately show ?thesis using a b c d e by blast
qed

text \<open>Evaluating a concrete session.\<close>

lemma ticks_numeral: "ticks (numeral n) p s = ticks (pred_numeral n) p (tick p s)"
  by (simp add: numeral_eq_Suc)

lemmas session_eval = tick_def mount_def answersEffects_def Let_def freshProps_def
      exampleData_def allocatedTime_def initialTime_def initialIndex_def handleSubmit_def jsRem_def
      tickEmissions_def

text \<open>
  C3 as stated fails. The ticks of a fresh 10-second session report at the remaining
  times 5 and 0: two snapshots, not \<open>10 div 5 + 1 = 3\<close>. Counting the snapshot taken
  while mounting as well does not rescue the formula: a fresh 12-second session then has
  four snapshots (12, 10, 5, 0), not \<open>12 div 5 + 1 = 3\<close>.
\<close>

theorem C3_emission_count_counterexample:
  "length (tickEmissions 10 (freshProps (Some 10))) \<noteq> 10 div 5 + 1 \<and>
   length (onProgressUpdateCalls (ticks 12 (freshProps (Some 12)) (mount (freshProps (Some 12)))))
     \<noteq> 12 div 5 + 1"
  by (simp add: session_eval ticks_numeral)

section \<open>The initial state\<close>

text \<open>
  C10. The remaining time starts at \<^verbatim>\<open>initialTimeLeft\<close> whenever that is not \<^verbatim>\<open>null\<close>
  (0 included); otherwise at \<^verbatim>\<open>data.timeLimit\<close> when that is a nonzero number; otherwise,
  with no time limit or the limit 0, at 60 seconds per question. In that last case the
  same 60 seconds per question are the allocated time from which \<^verbatim>\<open>handleSubmit\<close>
  computes the elapsed time.
\<close>

theorem C10_initial_time:
  "(initialTimeLeft p = Some t \<longrightarrow> timeLeft (mount p) = t) \<and>
   (initialTimeLeft p = None \<and> timeLimit (data p) = Some l \<and> l \<noteq> 0 \<longrightarrow>
      timeLeft (mount p) = l) \<and>
   (initialTimeLeft p = None \<and> (timeLimit (data p) = None \<or> timeLimit (data p) = Some 0) \<longrightarrow>
      timeLeft (mount p) = int (length (questions (data p))) * 60) \<and>
   (timeLimit (data p) = None \<or> timeLimit (data p) = Some 0 \<longrightarrow>
      allocatedTime p = int (length (questions (data p))) * 60 \<and>
      onFinishCalls (submitButton p s) =
        onFinishCalls s @ [(answers s, max 0 (int (length (questions (data p))) * 60 - timeLeft s))])"
  by (auto simp: mount_fields initialTime_def allocatedTime_def submitButton_def handleSubmit_def
      Let_def)

theorem C10_initial_time_witness:
  "initialTimeLeft (resumedProps (Some 30) (Some 0)) = Some 0 \<and>
   timeLeft (mount (resumedProps (Some 30) (Some 0))) = 0 \<and>
   initialTimeLeft (freshProps (Some 30)) = None \<and>
   timeLimit (data (freshProps (Some 30))) = Some 30 \<and>
   timeLeft (mount (freshProps (Some 30))) = 30 \<and>
   initialTimeLeft (freshProps None) = None \<and> timeLimit (data (freshProps None)) = None \<and>
   timeLeft (mount (freshProps None)) = 180 \<and>
   timeLimit (data (freshProps (Some 0))) = Some 0 \<and>
   timeLeft (mount (freshProps (Some 0))) = 180 \<and>
   allocatedTime (freshProps (Some 0)) = 180 \<and>
   onFinishCalls (submitButton (freshProps None) (mount (freshProps None))) = [(Mapping.empty, 0)]"
proof -
  have h: "initialTimeLeft (resumedProps (Some 30) (Some 0)) = Some 0"
    "initialTimeLeft (freshProps x) = None" "timeLimit (data (freshProps x)) = x" for x
    by (simp_all add: resumedProps_def freshProps_def exampleData_def)
  have q: "length (questions (data (freshProps x))) = 3" for x
    by (simp add: freshProps_def exampleData_def)
  have 1: "timeLeft (mount (resumedProps (Some 30) (Some 0))) = 0"
    using C10_initial_time [of "resumedProps (Some 30) (Some 0)" 0]
    by (simp add: resumedProps_def)
  have 2: "timeLeft (mount (freshProps (Some 30))) = 30"
    using C10_initial_time [of "freshProps (Some 30)" _ 30]
    by (simp add: freshProps_def exampleData_def)
  have 3: "timeLeft (mount (freshProps None)) = 180"
    using C10_initial_time [of "freshProps None"] q [of None]
    by (simp add: freshProps_def exampleData_def)
  have 4: "timeLeft (mount (freshProps (Some 0))) = 180 \<and> allocatedTime (freshProps (Some 0)) = 180"
    using C10_initial_time [of "freshProps (Some 0)"] q [of "Some 0"]
    by (simp add: freshProps_def exampleData_def)
  have 5: "onFinishCalls (submitButton (freshProps None) (mount (freshProps None))) = [(Mapping.empty, 0)]"
    using C10_initial_time [of "freshProps None" _ _ "mount (freshProps None)"] q [of None] 3
    by (simp add: freshProps_def exampleData_def mount_fields)
  from h 1 2 3 4 5 show ?thesis by simp
qed

lemma findIndexFrom_none:
  "0 \<le> k \<Longrightarrow> (findIndexFrom k P xs = - 1) = (\<forall>x \<in> set xs. \<not> P x)"
  by (induction xs arbitrary: k) auto

lemma findIndexFrom_first:
  "i < length xs \<Longrightarrow> P (xs ! i) \<Longrightarrow> \<forall>j<i. \<not> P (xs ! j) \<Longrightarrow>
   findIndexFrom k P xs = k + int i"
proof (induction xs arbitrary: k i)
  case Nil
  then show ?case by simp
next
  case (Cons x xs)
  show ?case
  proof (cases i)
    case 0
    with Cons.prems show ?thesis by simp
  next
    case (Suc m)
    with Cons.prems have nx: "\<not> P x" by auto
    have "findIndexFrom (k + 1) P xs = k + 1 + int m"
      using Cons.prems Suc by (intro Cons.IH) auto
    with nx Suc show ?thesis by simp
  qed
qed

text \<open>
  C5. In a session constructed with a nonempty map of prior answers, whose recorded keys
  are nonempty strings, the initial position is the index, in display order, of the first
  question whose id has no recorded answer, and it is 0 when every question has one.
\<close>

theorem C5_resume_position:
  assumes "\<not> Mapping.is_empty (initialAnswers p)"
    and "\<forall>q \<in> set (questions (data p)). Mapping.lookup (initialAnswers p) (qid q) \<noteq> Some []"
  shows "(i < length (questions (data p)) \<and>
          Mapping.lookup (initialAnswers p) (qid (questions (data p) ! i)) = None \<and>
          (\<forall>j<i. Mapping.lookup (initialAnswers p) (qid (questions (data p) ! j)) \<noteq> None) \<longrightarrow>
            currentQuestionIndex (mount p) = int i) \<and>
         ((\<forall>q \<in> set (questions (data p)). Mapping.lookup (initialAnswers p) (qid q) \<noteq> None) \<longrightarrow>
            currentQuestionIndex (mount p) = 0)"
proof -
  let ?qs = "questions (data p)"
  let ?a = "initialAnswers p"
  let ?P = "\<lambda>q. \<not> truthy (Mapping.lookup ?a (qid q))"
  have P: "?P q = (Mapping.lookup ?a (qid q) = None)" if "q \<in> set ?qs" for q
    using assms(2) that by (auto simp: truthy_def split: option.splits)
  have idx: "currentQuestionIndex (mount p) =
             (if findIndexFrom 0 ?P ?qs \<noteq> - 1 then findIndexFrom 0 ?P ?qs else 0)"
    using assms(1) by (simp add: mount_fields initialIndex_def findIndex_def Let_def)
  have first: "currentQuestionIndex (mount p) = int i"
    if "i < length ?qs" "Mapping.lookup ?a (qid (?qs ! i)) = None"
       "\<forall>j<i. Mapping.lookup ?a (qid (?qs ! j)) \<noteq> None"
  proof -
    have "?P (?qs ! i)" using that(2) by (simp add: truthy_def)
    moreover have "\<forall>j<i. \<not> ?P (?qs ! j)"
      using that(1,3) P by (metis nth_mem order.strict_trans)
    ultimately have "findIndexFrom 0 ?P ?qs = 0 + int i"
      using that(1) by (intro findIndexFrom_first) auto
    with idx show ?thesis by simp
  qed
  have none: "currentQuestionIndex (mount p) = 0"
    if "\<forall>q \<in> set ?qs. Mapping.lookup ?a (qid q) \<noteq> None"
  proof -
    have "\<forall>q \<in> set ?qs. \<not> ?P q" using that P by blast
    then have "findIndexFrom 0 ?P ?qs = - 1" using findIndexFrom_none [of 0 ?P ?qs] by simp
    with idx show ?thesis by simp
  qed
  from first none show ?thesis by blast
qed

lemma example_questions: "questions (exampleData x) = [q1, q2, q3]"
  by (simp add: exampleData_def)

lemma example_qids: "qid q1 = 1" "qid q2 = 2" "qid q3 = 3"
  by (simp_all add: q1_def q2_def q3_def)

text \<open>
  The prior answers \<^verbatim>\<open>{1: "A"}\<close> over the questions 1, 2, 3 start the session at index 1;
  prior answers for all three start it at index 0.
\<close>

theorem C5_resume_position_witness:
  "\<not> Mapping.is_empty (initialAnswers (resumedProps None None)) \<and>
   (1::nat) < length (questions (data (resumedProps None None))) \<and>
   Mapping.lookup (initialAnswers (resumedProps None None))
     (qid (questions (data (resumedProps None None)) ! 1)) = None \<and>
   currentQuestionIndex (mount (resumedProps None None)) = 1 \<and>
   \<not> Mapping.is_empty (initialAnswers answeredProps) \<and>
   list_all (\<lambda>q. Mapping.lookup (initialAnswers answeredProps) (qid q) \<noteq> None)
     (questions (data answeredProps)) \<and>
   currentQuestionIndex (mount answeredProps) = 0"
proof -
  have d: "questions (data (resumedProps None None)) = [q1, q2, q3]"
          "questions (data answeredProps) = [q1, q2, q3]"
    by (simp_all add: resumedProps_def answeredProps_def example_questions)
  have ia: "initialAnswers (resumedProps None None) = Mapping.update 1 ''A'' Mapping.empty"
    by (simp add: resumedProps_def)
  have ib: "initialAnswers answeredProps =
            Mapping.update 3 ''C'' (Mapping.update 2 ''X'' (Mapping.update 1 ''A'' Mapping.empty))"
    by (simp add: answeredProps_def)
  have a1: "\<not> Mapping.is_empty (initialAnswers (resumedProps None None))"
    by (simp add: ia)
  have a2: "\<forall>q \<in> set (questions (data (resumedProps None None))).
              Mapping.lookup (initialAnswers (resumedProps None None)) (qid q) \<noteq> Some []"
    by (simp add: d ia example_qids Mapping.lookup_update')
  have h1: "(1::nat) < length (questions (data (resumedProps None None)))"
    by (simp add: d)
  have h2: "Mapping.lookup (initialAnswers (resumedProps None None))
              (qid (questions (data (resumedProps None None)) ! 1)) = None"
    by (simp add: d ia example_qids Mapping.lookup_update')
  have h3: "\<forall>j<1::nat. Mapping.lookup (initialAnswers (resumedProps None None))
              (qid (questions (data (resumedProps None None)) ! j)) \<noteq> None"
    by (simp add: d ia example_qids Mapping.lookup_update')
  have r1: "currentQuestionIndex (mount (resumedProps None None)) = 1"
    using C5_resume_position [OF a1 a2, of 1] h1 h2 h3 by simp
  have b1: "\<not> Mapping.is_empty (initialAnswers answeredProps)"
    by (simp add: ib)
  have b2: "\<forall>q \<in> set (questions (data answeredProps)).
              Mapping.lookup (initialAnswers answeredProps) (qid q) \<noteq> Some []"
    by (simp add: d ib example_qids Mapping.lookup_update')
  have b3: "\<forall>q \<in> set (questions (data answeredProps)).
              Mapping.lookup (initialAnswers answeredProps) (qid q) \<noteq> None"
    by (simp add: d ib example_qids Mapping.lookup_update')
  have r2: "currentQuestionIndex (mount answeredProps) = 0"
    using C5_resume_position [OF b1 b2, of 0] b3 by blast
  from a1 h1 h2 r1 b1 b3 r2 show ?thesis by (simp only: list_all_iff simp_thms)
qed

section \<open>Navigation\<close>

lemma clickIndex_in_range:
  "0 \<le> idx \<Longrightarrow> idx < int (length (questions (data p))) \<Longrightarrow>
   clickIndex p idx s = Some (s\<lparr>currentQuestionIndex := idx\<rparr>)"
  by (simp add: clickIndex_def jsIndex_def sidebarButtons_def)

lemma clickIndex_Some:
  "clickIndex p idx s = Some s' \<Longrightarrow>
   0 \<le> idx \<and> idx < int (length (questions (data p))) \<and> s' = s\<lparr>currentQuestionIndex := idx\<rparr>"
  by (auto simp: clickIndex_def jsIndex_def sidebarButtons_def split: if_splits)

text \<open>
  C4. With the position inside \<open>[0, n - 1]\<close>, every navigation path sets the position
  to the requested index clamped to \<open>[0, n - 1]\<close>, and none rejects a request. The left
  arrow and the previous button request the index before the current one, the right
  arrow, Enter and the next button the index after it: at the two ends these requests
  are out of range and the position stays at the boundary. A click on the sidebar button
  of a valid index \<open>i\<close> sets the position, and reading it yields \<open>i\<close>; the sidebar has
  a button for each question and no other, so every direct request that the page can
  issue is in range and the position it sets is the clamped request as well.
\<close>

theorem C4_navigation_clamped:
  assumes "0 \<le> currentQuestionIndex s"
    and "currentQuestionIndex s < int (length (questions (data p)))"
  shows "handleKeyDown p False ''ArrowLeft'' s =
           Some (s\<lparr>currentQuestionIndex :=
             setPositionSpec (int (length (questions (data p)))) (currentQuestionIndex s - 1)\<rparr>) \<and>
         handleKeyDown p False ''ArrowRight'' s =
           Some (s\<lparr>currentQuestionIndex :=
             setPositionSpec (int (length (questions (data p)))) (currentQuestionIndex s + 1)\<rparr>) \<and>
         handleKeyDown p False ''Enter'' s = handleKeyDown p False ''ArrowRight'' s \<and>
         previousButton s =
           s\<lparr>currentQuestionIndex :=
             setPositionSpec (int (length (questions (data p)))) (currentQuestionIndex s - 1)\<rparr> \<and>
         nextButton p s =
           s\<lparr>currentQuestionIndex :=
             setPositionSpec (int (length (questions (data p)))) (currentQuestionIndex s + 1)\<rparr> \<and>
         (0 \<le> idx \<and> idx < int (length (questions (data p))) \<longrightarrow>
            clickIndex p idx s = Some (s\<lparr>currentQuestionIndex := idx\<rparr>) \<and>
            setPositionSpec (int (length (questions (data p)))) idx = idx) \<and>
         (clickIndex p idx s = Some s' \<longrightarrow>
            currentQuestionIndex s' = setPositionSpec (int (length (questions (data p)))) idx)"
proof -
  let ?n = "int (length (questions (data p)))"
  let ?i = "currentQuestionIndex s"
  have l: "setPositionSpec ?n (?i - 1) = max 0 (?i - 1)"
    using assms by (simp add: setPositionSpec_def)
  have r: "setPositionSpec ?n (?i + 1) = min (?n - 1) (?i + 1)"
    using assms by (simp add: setPositionSpec_def)
  have c: "setPositionSpec ?n idx = idx" if "0 \<le> idx" "idx < ?n"
    using that by (simp add: setPositionSpec_def)
  have keys: "handleKeyDown p False ''ArrowLeft'' s =
                Some (s\<lparr>currentQuestionIndex := setPositionSpec ?n (?i - 1)\<rparr>) \<and>
              handleKeyDown p False ''ArrowRight'' s =
                Some (s\<lparr>currentQuestionIndex := setPositionSpec ?n (?i + 1)\<rparr>) \<and>
              handleKeyDown p False ''Enter'' s = handleKeyDown p False ''ArrowRight'' s"
    unfolding l r by (simp add: handleKeyDown_def Let_def)
  have buttons: "previousButton s = s\<lparr>currentQuestionIndex := setPositionSpec ?n (?i - 1)\<rparr> \<and>
                 nextButton p s = s\<lparr>currentQuestionIndex := setPositionSpec ?n (?i + 1)\<rparr>"
    unfolding l r by (simp add: previousButton_def nextButton_def)
  have click1: "0 \<le> idx \<and> idx < ?n \<longrightarrow>
                  clickIndex p idx s = Some (s\<lparr>currentQuestionIndex := idx\<rparr>) \<and>
                  setPositionSpec ?n idx = idx"
    using c clickIndex_in_range [of idx p s] by blast
  have click2: "clickIndex p idx s = Some s' \<longrightarrow> currentQuestionIndex s' = setPositionSpec ?n idx"
  proof
    assume "clickIndex p idx s = Some s'"
    from clickIndex_Some [OF this] c show "currentQuestionIndex s' = setPositionSpec ?n idx"
      by simp
  qed
  from keys buttons click1 click2 show ?thesis by blast
qed

lemma mount_fresh_index: "currentQuestionIndex (mount (freshProps x)) = 0"
  by (simp add: mount_fields initialIndex_def freshProps_def)

lemma fresh_length: "length (questions (data (freshProps x))) = 3"
  by (simp add: freshProps_def exampleData_def)

theorem C4_navigation_clamped_witness:
  "0 \<le> currentQuestionIndex (mount (freshProps None)) \<and>
   currentQuestionIndex (mount (freshProps None)) < int (length (questions (data (freshProps None)))) \<and>
   currentQuestionIndex (previousButton (mount (freshProps None))) = 0 \<and>
   currentQuestionIndex (nextButton (freshProps None) (mount (freshProps None))) = 1 \<and>
   (0 \<le> (2::int) \<and> 2 < int (length (questions (data (freshProps None))))) \<and>
   clickIndex (freshProps None) 2 (mount (freshProps None)) =
     Some ((mount (freshProps None))\<lparr>currentQuestionIndex := 2\<rparr>) \<and>
   setPositionSpec (int (length (questions (data (freshProps None))))) 2 = 2"
proof -
  have n: "int (length (questions (data (freshProps None)))) = 3"
    by (simp add: freshProps_def exampleData_def)
  have a: "0 \<le> currentQuestionIndex (mount (freshProps None))"
    by (simp add: mount_fresh_index)
  have b: "currentQuestionIndex (mount (freshProps None)) <
           int (length (questions (data (freshProps None))))"
    by (simp add: mount_fresh_index n)
  have d: "0 \<le> (2::int) \<and> 2 < int (length (questions (data (freshProps None))))"
    by (simp add: n)
  note t = C4_navigation_clamped [OF a b, of 2 "(mount (freshProps None))\<lparr>currentQuestionIndex := 2\<rparr>"]
  from t have pb: "currentQuestionIndex (previousButton (mount (freshProps None))) = 0"
    by (simp add: setPositionSpec_def mount_fresh_index n)
  from t have nb: "currentQuestionIndex (nextButton (freshProps None) (mount (freshProps None))) = 1"
    by (simp add: setPositionSpec_def mount_fresh_index n)
  from t d have ck: "clickIndex (freshProps None) 2 (mount (freshProps None)) =
                       Some ((mount (freshProps None))\<lparr>currentQuestionIndex := 2\<rparr>) \<and>
                     setPositionSpec (int (length (questions (data (freshProps None))))) 2 = 2"
    by blast
  from a b pb nb d ck show ?thesis by blast
qed

section \<open>Scoring\<close>

text \<open>
  C7. The correctness flag of a question is true exactly when the recorded answer is the
  question's \<^verbatim>\<open>correctAnswer\<close>; a question without a recorded answer is incorrect; the
  score is the number of true flags. Three questions with the correct answers A, B, C
  and the answers \<^verbatim>\<open>{1: "A", 2: "X"}\<close> have the flags true, false, false and score 1 of 3.
\<close>

theorem C7_scoring:
  "(i < length (questions d) \<longrightarrow>
      (correctnessFlags d a ! i \<longleftrightarrow>
         Mapping.lookup a (qid (questions d ! i)) = Some (correctAnswer (questions d ! i))) \<and>
      (Mapping.lookup a (qid (questions d ! i)) = None \<longrightarrow> \<not> correctnessFlags d a ! i)) \<and>
   length (correctnessFlags d a) = length (questions d) \<and>
   score d a = length (filter (\<lambda>b. b) (correctnessFlags d a)) \<and>
   correctnessFlags (exampleData None) exampleAnswers = [True, False, False] \<and>
   score (exampleData None) exampleAnswers = 1 \<and>
   length (questions (exampleData None)) = 3"
proof -
  have g: "score d' a' = length (filter (\<lambda>b. b) (correctnessFlags d' a'))" for d' a'
    by (simp add: score_def correctnessFlags_def filter_map comp_def)
  have e: "correctnessFlags (exampleData None) exampleAnswers = [True, False, False]"
    by (simp add: correctnessFlags_def isCorrect_def exampleData_def exampleAnswers_def
        q1_def q2_def q3_def Mapping.lookup_update')
  have s: "score (exampleData None) exampleAnswers = 1"
    unfolding g e by simp
  show ?thesis
    using g [of d a] e s by (simp add: correctnessFlags_def isCorrect_def example_questions)
qed

theorem C7_scoring_witness:
  "(2::nat) < length (questions (exampleData None)) \<and>
   Mapping.lookup exampleAnswers (qid (questions (exampleData None) ! 2)) = None \<and>
   \<not> correctnessFlags (exampleData None) exampleAnswers ! 2 \<and>
   (0::nat) < length (questions (exampleData None)) \<and>
   correctnessFlags (exampleData None) exampleAnswers ! 0 \<and>
   score (exampleData None) exampleAnswers = 1"
proof -
  have h: "(2::nat) < length (questions (exampleData None))"
          "(0::nat) < length (questions (exampleData None))"
    by (simp_all add: example_questions)
  have n: "Mapping.lookup exampleAnswers (qid (questions (exampleData None) ! 2)) = None"
    by (simp add: example_questions exampleAnswers_def example_qids Mapping.lookup_update')
  have y: "Mapping.lookup exampleAnswers (qid (questions (exampleData None) ! 0)) =
           Some (correctAnswer (questions (exampleData None) ! 0))"
    by (simp add: example_questions exampleAnswers_def q1_def Mapping.lookup_update')
  from C7_scoring [of 2 "exampleData None" exampleAnswers]
       C7_scoring [of 0 "exampleData None" exampleAnswers] h n y
  show ?thesis by blast
qed

section \<open>Key events\<close>

lemma timeLeft_answersEffects: "timeLeft (answersEffects p s) = timeLeft s"
  by (simp add: answersEffects_def Let_def)

lemma timeLeft_handleSelectOption: "timeLeft (handleSelectOption p i k s) = timeLeft s"
  by (simp add: handleSelectOption_def timeLeft_answersEffects)

lemma answers_handleSelectOption:
  "answers (handleSelectOption p i k s) = Mapping.update i k (answers s)"
  by (simp add: handleSelectOption_def answersEffects_def Let_def)

lemma index_handleSelectOption:
  "currentQuestionIndex (handleSelectOption p i k s) = currentQuestionIndex s"
  by (simp add: handleSelectOption_def answersEffects_def Let_def)

lemma selectIfPresent_Some:
  "selectIfPresent p (Some q) L s =
     Some (if L \<in> key ` set (options q) then handleSelectOption p (qid q) L s else s)"
  by (auto simp: selectIfPresent_def list_ex_iff)

lemma mappedKeySpec_Some:
  "mappedKeySpec k = Some L \<Longrightarrow>
   (L = ''A'' \<and> (k = ''1'' \<or> k = ''a'' \<or> k = ''A'')) \<or>
   (L = ''B'' \<and> (k = ''2'' \<or> k = ''b'' \<or> k = ''B'')) \<or>
   (L = ''C'' \<and> (k = ''3'' \<or> k = ''c'' \<or> k = ''C'')) \<or>
   (L = ''D'' \<and> (k = ''4'' \<or> k = ''d'' \<or> k = ''D''))"
  unfolding mappedKeySpec_def by (simp split: if_splits)

lemma mappedKeySpec_None:
  "mappedKeySpec k = None \<Longrightarrow>
   k \<noteq> ''1'' \<and> k \<noteq> ''a'' \<and> k \<noteq> ''A'' \<and> k \<noteq> ''2'' \<and> k \<noteq> ''b'' \<and> k \<noteq> ''B'' \<and>
   k \<noteq> ''3'' \<and> k \<noteq> ''c'' \<and> k \<noteq> ''C'' \<and> k \<noteq> ''4'' \<and> k \<noteq> ''d'' \<and> k \<noteq> ''D''"
  unfolding mappedKeySpec_def by (simp split: if_splits)

lemma handleKeyDown_A:
  "k = ''1'' \<or> k = ''a'' \<or> k = ''A'' \<Longrightarrow>
   handleKeyDown p False k s =
     selectIfPresent p (jsIndex (questions (data p)) (currentQuestionIndex s)) ''A'' s"
  by (elim disjE) (simp_all add: handleKeyDown_def Let_def)

lemma handleKeyDown_B:
  "k = ''2'' \<or> k = ''b'' \<or> k = ''B'' \<Longrightarrow>
   handleKeyDown p False k s =
     selectIfPresent p (jsIndex (questions (data p)) (currentQuestionIndex s)) ''B'' s"
  by (elim disjE) (simp_all add: handleKeyDown_def Let_def)

lemma handleKeyDown_C:
  "k = ''3'' \<or> k = ''c'' \<or> k = ''C'' \<Longrightarrow>
   handleKeyDown p False k s =
     selectIfPresent p (jsIndex (questions (data p)) (currentQuestionIndex s)) ''C'' s"
  by (elim disjE) (simp_all add: handleKeyDown_def Let_def)

lemma handleKeyDown_D:
  "k = ''4'' \<or> k = ''d'' \<or> k = ''D'' \<Longrightarrow>
   handleKeyDown p False k s =
     selectIfPresent p (jsIndex (questions (data p)) (currentQuestionIndex s)) ''D'' s"
  by (elim disjE) (simp_all add: handleKeyDown_def Let_def)

lemma handleKeyDown_mapped:
  assumes "jsIndex (questions (data p)) (currentQuestionIndex s) = Some q"
    and "mappedKeySpec k = Some L"
  shows "handleKeyDown p False k s =
     Some (if L \<in> key ` set (options q) then handleSelectOption p (qid q) L s else s)"
proof -
  from mappedKeySpec_Some [OF assms(2)]
  have "handleKeyDown p False k s = selectIfPresent p (Some q) L s"
    using handleKeyDown_A [of k p s] handleKeyDown_B [of k p s]
      handleKeyDown_C [of k p s] handleKeyDown_D [of k p s] assms(1)
    by (elim disjE conjE) simp_all
  then show ?thesis by (simp only: selectIfPresent_Some)
qed

lemma handleKeyDown_other:
  assumes "mappedKeySpec k = None" and "k \<noteq> ''ArrowLeft''" and "k \<noteq> ''ArrowRight''"
    and "k \<noteq> ''Enter''"
  shows "handleKeyDown p tgt k s = Some s"
  using mappedKeySpec_None [OF assms(1)] assms(2-4)
  by (simp add: handleKeyDown_def Let_def)

lemma handleKeyDown_nav:
  "k = ''ArrowLeft'' \<or> k = ''ArrowRight'' \<or> k = ''Enter'' \<Longrightarrow>
   handleKeyDown p False k s =
     Some (s\<lparr>currentQuestionIndex :=
       (if k = ''ArrowLeft'' then max 0 (currentQuestionIndex s - 1)
        else min (int (length (questions (data p))) - 1) (currentQuestionIndex s + 1))\<rparr>)"
  by (elim disjE) (simp_all add: handleKeyDown_def Let_def)

lemma handleKeyDown_input: "handleKeyDown p True k s = Some s"
  by (simp add: handleKeyDown_def)

lemma mapped_not_nav:
  "k = ''ArrowLeft'' \<or> k = ''ArrowRight'' \<or> k = ''Enter'' \<Longrightarrow> mappedKeySpec k = None"
  by (elim disjE) (simp_all add: mappedKeySpec_def)

text \<open>
  C6, as the code has it. With the position on a question \<open>q\<close>, a key event raises no
  error. It changes the answers only when the focus is not on an input and its key maps
  to an option key that \<open>q\<close> has, and then it records exactly that key for \<open>q\<close>. A key
  whose mapped key is not among the option keys of \<open>q\<close>, and a key that is neither in
  the table nor ArrowLeft, ArrowRight or Enter, leave the whole state (answers, position,
  timer, callbacks) as it is. ArrowLeft, ArrowRight and Enter are keys outside the table
  that do act: they change the position and nothing else. The case of the letter does
  not matter.
\<close>

theorem C6_key_events:
  assumes "jsIndex (questions (data p)) (currentQuestionIndex s) = Some q"
  shows "(\<exists>s'. handleKeyDown p tgt k s = Some s') \<and>
         (handleKeyDown p tgt k s = Some s' \<and> answers s' \<noteq> answers s \<longrightarrow>
            (\<exists>L. mappedKeySpec k = Some L \<and> L \<in> key ` set (options q) \<and>
                 s' = handleSelectOption p (qid q) L s \<and>
                 answers s' = Mapping.update (qid q) L (answers s))) \<and>
         (mappedKeySpec k = Some L \<and> L \<in> key ` set (options q) \<longrightarrow>
            handleKeyDown p False k s = Some (handleSelectOption p (qid q) L s)) \<and>
         (mappedKeySpec k = Some L \<and> L \<notin> key ` set (options q) \<longrightarrow>
            handleKeyDown p tgt k s = Some s) \<and>
         (mappedKeySpec k = None \<and> k \<noteq> ''ArrowLeft'' \<and> k \<noteq> ''ArrowRight'' \<and> k \<noteq> ''Enter'' \<longrightarrow>
            handleKeyDown p tgt k s = Some s) \<and>
         ((k = ''ArrowLeft'' \<or> k = ''ArrowRight'' \<or> k = ''Enter'') \<and>
          handleKeyDown p tgt k s = Some s' \<longrightarrow>
            s' = s\<lparr>currentQuestionIndex := currentQuestionIndex s'\<rparr>)"
proof -
  consider (input) "tgt" | (nav) "\<not> tgt" "k = ''ArrowLeft'' \<or> k = ''ArrowRight'' \<or> k = ''Enter''"
    | (mapped) M where "\<not> tgt" "mappedKeySpec k = Some M"
    | (other) "\<not> tgt" "mappedKeySpec k = None" "k \<noteq> ''ArrowLeft''" "k \<noteq> ''ArrowRight''"
        "k \<noteq> ''Enter''"
    by (cases "mappedKeySpec k") auto
  then show ?thesis
  proof cases
    case input
    then show ?thesis
      using handleKeyDown_mapped [OF assms, of k L] by (auto simp: handleKeyDown_input)
  next
    case nav
    from handleKeyDown_nav [OF nav(2), of p s] obtain i where
      "handleKeyDown p False k s = Some (s\<lparr>currentQuestionIndex := i\<rparr>)" by blast
    with nav mapped_not_nav [OF nav(2)] show ?thesis by auto
  next
    case mapped
    have "\<not> (k = ''ArrowLeft'' \<or> k = ''ArrowRight'' \<or> k = ''Enter'')"
      using mapped(2) mapped_not_nav [of k] by auto
    with handleKeyDown_mapped [OF assms mapped(2)] mapped show ?thesis
      by (auto simp: answers_handleSelectOption)
  next
    case other
    with handleKeyDown_other [of k p tgt s] show ?thesis by auto
  qed
qed

theorem C6_key_events_witness:
  "jsIndex (questions (data (freshProps None)))
     (currentQuestionIndex (nextButton (freshProps None) (mount (freshProps None)))) = Some q2 \<and>
   handleKeyDown (freshProps None) False ''c'' (nextButton (freshProps None) (mount (freshProps None))) =
     Some (nextButton (freshProps None) (mount (freshProps None))) \<and>
   handleKeyDown (freshProps None) False ''Tab'' (nextButton (freshProps None) (mount (freshProps None))) =
     Some (nextButton (freshProps None) (mount (freshProps None))) \<and>
   handleKeyDown (freshProps None) False ''b'' (nextButton (freshProps None) (mount (freshProps None))) =
     Some (handleSelectOption (freshProps None) 2 ''B''
             (nextButton (freshProps None) (mount (freshProps None)))) \<and>
   (\<exists>s'. handleKeyDown (freshProps None) False ''ArrowRight''
            (nextButton (freshProps None) (mount (freshProps None))) = Some s' \<and>
         s' = (nextButton (freshProps None) (mount (freshProps None)))
                \<lparr>currentQuestionIndex := currentQuestionIndex s'\<rparr>)"
proof -
  define p where "p = freshProps None"
  define s where "s = nextButton p (mount p)"
  have qs: "questions (data p) = [q1, q2, q3]"
    by (simp add: p_def freshProps_def exampleData_def)
  have ci: "currentQuestionIndex s = 1"
    unfolding s_def p_def by (simp add: nextButton_def fresh_length mount_fresh_index)
  have h: "jsIndex (questions (data p)) (currentQuestionIndex s) = Some q2"
    by (simp add: jsIndex_def qs ci)
  have inB: "''B'' \<in> key ` set (options q2)" and ninC: "''C'' \<notin> key ` set (options q2)"
    by (simp_all add: q2_def optionsABCD_def)
  have mc: "mappedKeySpec ''c'' = Some ''C''" and mb: "mappedKeySpec ''b'' = Some ''B''"
    and mt: "mappedKeySpec ''Tab'' = None"
    by (simp_all add: mappedKeySpec_def)
  have nt: "''Tab'' \<noteq> ''ArrowLeft''" "''Tab'' \<noteq> ''ArrowRight''" "''Tab'' \<noteq> ''Enter''"
    by simp_all
  have 1: "handleKeyDown p False ''c'' s = Some s"
    using C6_key_events [OF h, of False "''c''" s "''C''"] mc ninC by blast
  have 2: "handleKeyDown p False ''Tab'' s = Some s"
    using C6_key_events [OF h, of False "''Tab''" s "''C''"] mt nt by blast
  have 3: "handleKeyDown p False ''b'' s = Some (handleSelectOption p (qid q2) ''B'' s)"
    using C6_key_events [OF h, of False "''b''" s "''B''"] mb inB by blast
  from C6_key_events [OF h, of False "''ArrowRight''" s "''C''"]
  obtain s1 where s1: "handleKeyDown p False ''ArrowRight'' s = Some s1" by blast
  have 4: "s1 = s\<lparr>currentQuestionIndex := currentQuestionIndex s1\<rparr>"
    using C6_key_events [OF h, of False "''ArrowRight''" s1 "''C''"] s1 by blast
  from s1 4 have 5: "\<exists>s'. handleKeyDown p False ''ArrowRight'' s = Some s' \<and>
                          s' = s\<lparr>currentQuestionIndex := currentQuestionIndex s'\<rparr>"
    by blast
  from h 1 2 3 5 show ?thesis
    unfolding p_def s_def by (simp only: example_qids simp_thms)
qed

text \<open>
  C6 as stated fails for a key outside the table of answer keys: ArrowRight has no mapped
  key, and on the first of three questions it moves the position from 0 to 1.
\<close>

theorem C6_arrow_key_counterexample:
  "mappedKeySpec ''ArrowRight'' = None \<and>
   currentQuestionIndex (mount (freshProps None)) = 0 \<and>
   handleKeyDown (freshProps None) False ''ArrowRight'' (mount (freshProps None)) =
     Some ((mount (freshProps None))\<lparr>currentQuestionIndex := 1\<rparr>)"
  by (simp add: mappedKeySpec_def mount_fresh_index handleKeyDown_def Let_def fresh_length)

section \<open>The remaining time\<close>

lemma tick_timeLeft: "0 \<le> timeLeft s \<Longrightarrow> 0 \<le> timeLeft (tick p s) \<and> timeLeft (tick p s) \<le> timeLeft s"
  by (simp add: tick_def handleSubmit_def Let_def)

lemma selectIfPresent_timeLeft:
  "selectIfPresent p cq L s = Some s' \<Longrightarrow> timeLeft s' = timeLeft s"
  by (auto simp: selectIfPresent_def timeLeft_handleSelectOption split: option.splits if_splits)

lemma handleKeyDown_timeLeft:
  assumes "handleKeyDown p tgt k s = Some s'"
  shows "timeLeft s' = timeLeft s"
proof (cases tgt)
  case True
  with assms show ?thesis by (simp add: handleKeyDown_input)
next
  case False
  show ?thesis
  proof (cases "k = ''ArrowLeft'' \<or> k = ''ArrowRight'' \<or> k = ''Enter''")
    case True
    from handleKeyDown_nav [OF True, of p s] assms False show ?thesis by auto
  next
    case nn: False
    show ?thesis
    proof (cases "mappedKeySpec k")
      case None
      with handleKeyDown_other [of k p tgt s] nn assms show ?thesis by simp
    next
      case (Some L)
      from mappedKeySpec_Some [OF Some]
      have "handleKeyDown p False k s =
              selectIfPresent p (jsIndex (questions (data p)) (currentQuestionIndex s)) L s"
        using handleKeyDown_A [of k p s] handleKeyDown_B [of k p s]
          handleKeyDown_C [of k p s] handleKeyDown_D [of k p s]
        by (elim disjE conjE) simp_all
      with assms False show ?thesis by (auto dest: selectIfPresent_timeLeft)
    qed
  qed
qed

lemma step_timeLeft:
  "0 \<le> timeLeft s \<Longrightarrow> step p e s = Some s' \<Longrightarrow>
   0 \<le> timeLeft s' \<and> timeLeft s' \<le> timeLeft s"
proof (cases e)
  case Tick
  assume "0 \<le> timeLeft s" "step p e s = Some s'"
  with Tick tick_timeLeft [of s p] show ?thesis by auto
next
  case (KeyDown tgt k)
  assume "0 \<le> timeLeft s" "step p e s = Some s'"
  with KeyDown handleKeyDown_timeLeft [of p tgt k s s'] show ?thesis by simp
next
  case (ClickIndex idx)
  assume "0 \<le> timeLeft s" "step p e s = Some s'"
  with ClickIndex clickIndex_Some [of p idx s s'] show ?thesis by simp
qed (auto simp: previousButton_def nextButton_def timeLeft_handleSelectOption
       submitButton_def handleSubmit_def Let_def)

text \<open>
  C8, as the code has it. From a state whose remaining time is not negative, every run
  of session events (ticks, key events, clicks, answer selections, submissions) that
  raises no error ends with a remaining time that is not negative and not above the one
  it started with; a remaining time of 0 stays 0. This holds after a submission as
  before it: pressing a submit button does not stop the countdown.
\<close>

theorem C8_time_never_increases:
  assumes "0 \<le> timeLeft s" and "run p es s = Some s'"
  shows "0 \<le> timeLeft s' \<and> timeLeft s' \<le> timeLeft s \<and> (timeLeft s = 0 \<longrightarrow> timeLeft s' = 0)"
proof -
  have "0 \<le> timeLeft s' \<and> timeLeft s' \<le> timeLeft s"
    using assms
  proof (induction es arbitrary: s)
    case Nil
    then show ?case by simp
  next
    case (Cons e es)
    from Cons.prems(2) obtain s1 where s1: "step p e s = Some s1" and r: "run p es s1 = Some s'"
      by (auto split: option.splits)
    from step_timeLeft [OF Cons.prems(1) s1] have b: "0 \<le> timeLeft s1" "timeLeft s1 \<le> timeLeft s"
      by simp_all
    from Cons.IH [OF b(1) r] b(2) show ?case by simp
  qed
  then show ?thesis by auto
qed

theorem C8_time_never_increases_witness:
  "0 \<le> timeLeft (mount (freshProps (Some 3))) \<and>
   (\<exists>s'. run (freshProps (Some 3))
            [Tick, KeyDown False ''ArrowRight'', RadioChange 2 ''B'', Tick, SubmitButton,
             ClickIndex 0, Tick, Tick]
            (mount (freshProps (Some 3))) = Some s' \<and>
         0 \<le> timeLeft s' \<and> timeLeft s' \<le> timeLeft (mount (freshProps (Some 3))))"
proof -
  define p where "p = freshProps (Some 3)"
  define es where "es = [Tick, KeyDown False ''ArrowRight'', RadioChange 2 ''B'', Tick,
                         SubmitButton, ClickIndex 0, Tick, Tick]"
  have a: "0 \<le> timeLeft (mount p)"
    by (simp add: p_def mount_fields initialTime_def allocatedTime_def freshProps_def
        exampleData_def)
  have ck: "clickIndex p 0 t = Some (t\<lparr>currentQuestionIndex := 0\<rparr>)" for t
    by (rule clickIndex_in_range) (simp_all add: p_def freshProps_def exampleData_def)
  have "\<exists>s'. run p es (mount p) = Some s'"
    by (simp add: es_def handleKeyDown_def Let_def ck)
  then obtain s' where r: "run p es (mount p) = Some s'" by blast
  from C8_time_never_increases [OF a r] r a show ?thesis
    unfolding p_def es_def by blast
qed

text \<open>
  C8 as stated fails at "until submission freezes it": in a fresh session of 3 seconds,
  the interval is still running after a press of the submit button, and the next tick
  takes the remaining time from 3 to 2.
\<close>

theorem C8_submission_counterexample:
  "timerActive (submitButton (freshProps (Some 3)) (mount (freshProps (Some 3)))) \<and>
   timeLeft (submitButton (freshProps (Some 3)) (mount (freshProps (Some 3)))) = 3 \<and>
   timeLeft (tick (freshProps (Some 3))
      (submitButton (freshProps (Some 3)) (mount (freshProps (Some 3))))) = 2"
  by (simp add: submitButton_def session_eval)

end
